theory Spec2Isabelle
  imports Main "HOL-Library.Sublist" "HOL-Library.Multiset"
begin

section \<open>The multiplexer of adb-multiplexer.js\<close>

text \<open>
  The orchestrator script \<^verbatim>\<open>adb-multiplexer.js\<close> runs one adb command on every
  attached device that is online, and with \<^verbatim>\<open>--continue\<close> repeats it for the devices
  the detector announces later. The script is the only source file; the classes
  \<^verbatim>\<open>Device\<close> and \<^verbatim>\<open>DeviceDetector\<close> it requires from \<^verbatim>\<open>./modules\<close> and the npm
  package \<^verbatim>\<open>colors\<close> are collaborators.
\<close>

subsection \<open>Devices\<close>

datatype device_state = Online | Offline | Unauthorized

text \<open>
  The script reads \<^verbatim>\<open>device.id\<close> and \<^verbatim>\<open>device.model\<close>; the connectivity state is the
  attribute behind \<^verbatim>\<open>device.isOnline()\<close>. The field \<^verbatim>\<open>id\<close> is named \<open>id_dev\<close>, since
  \<open>id\<close> is the identity function of HOL.
\<close>

record device =
  id_dev :: string
  model :: string
  state :: device_state

text \<open>
  Modelled from the spec: the method \<^verbatim>\<open>isOnline\<close> of the class \<^verbatim>\<open>Device\<close>, which
  is absent: true iff the state is Online.
\<close>

definition isOnline :: "device \<Rightarrow> bool" where
  "isOnline device = (state device = Online)"

subsection \<open>Collaborators\<close>

datatype colour = Red | Green | Cyan

text \<open>
  What the script calls and does not define is taken as a parameter:
  \<^item> \<open>executeCommandSync\<close>: the method of \<^verbatim>\<open>Device\<close> that runs the command on one
    device; \<open>Inr\<close> is the captured output, \<open>Inl\<close> the error message it throws
    (the script documents \<^verbatim>\<open>@throws {String}\<close>);
  \<^item> \<open>toStatusString\<close>: the one-line rendering of a device;
  \<^item> \<open>paint\<close>: the getters \<^verbatim>\<open>.red\<close>, \<^verbatim>\<open>.green\<close>, \<^verbatim>\<open>.cyan\<close> that the package
    \<^verbatim>\<open>colors\<close> adds to strings (the identity under \<^verbatim>\<open>--no-color\<close>);
  \<^item> \<open>getDevices\<close>: what the one call of \<^verbatim>\<open>deviceDetector.getDevices()\<close> yields:
    \<open>Inr\<close> the snapshot, \<open>Inl\<close> the message of the detection error it throws.
\<close>

record env =
  executeCommandSync :: "device \<Rightarrow> string \<Rightarrow> string + string"
  toStatusString :: "device \<Rightarrow> string"
  paint :: "colour \<Rightarrow> string \<Rightarrow> string"
  getDevices :: "string + device list"

text \<open>
  The two parsed arguments the script uses, \<^verbatim>\<open>params.command\<close> and
  \<^verbatim>\<open>params.continue\<close>, are global there and arguments \<open>command\<close> and \<open>continue\<close> here.
\<close>

subsection \<open>The process and its effects\<close>

text \<open>The script has one event handler, \<^verbatim>\<open>newOrChangedDevicesListener\<close>.\<close>

datatype listener = NewOrChangedDevicesListener

text \<open>
  Everything the script does to the outside, in the order it does it: a line on
  standard output or on standard error, one call of \<^verbatim>\<open>executeCommandSync\<close> on a
  device, the calls on the detector, and \<^verbatim>\<open>process.exit\<close>.
\<close>

datatype effect =
    ConsoleLog string
  | ConsoleError string
  | ExecuteCommandSync device string
  | GetDevices
  | On string listener
  | Watch
  | Unwatch
  | ProcessExit nat

text \<open>
  The state of the process: the effects so far (oldest first), the detector's watch
  flag and registered handlers, and the exit code once \<^verbatim>\<open>process.exit\<close> was called.
\<close>

record world =
  trace :: "effect list"
  watching :: bool
  listeners :: "(string \<times> listener) list"
  exited :: "nat option"

definition emit_effect :: "effect \<Rightarrow> world \<Rightarrow> world" where
  "emit_effect e w = w\<lparr>trace := trace w @ [e]\<rparr>"

definition consoleLog :: "string \<Rightarrow> world \<Rightarrow> world" where
  "consoleLog s w = emit_effect (ConsoleLog s) w"

definition consoleError :: "string \<Rightarrow> world \<Rightarrow> world" where
  "consoleError s w = emit_effect (ConsoleError s) w"

definition processExit :: "nat \<Rightarrow> world \<Rightarrow> world" where
  "processExit code w = (emit_effect (ProcessExit code) w)\<lparr>exited := Some code\<rparr>"

text \<open>
  Modelled from the spec: the methods \<^verbatim>\<open>on\<close>, \<^verbatim>\<open>watch\<close> and \<^verbatim>\<open>unwatch\<close> of the
  module \<^verbatim>\<open>./modules/DeviceDetector\<close>, which is absent. \<^verbatim>\<open>on\<close> registers a callback
  for an event, \<^verbatim>\<open>watch\<close> moves the detector to Watching and \<^verbatim>\<open>unwatch\<close> back to
  Idle; both are idempotent.
\<close>

definition on :: "string \<Rightarrow> listener \<Rightarrow> world \<Rightarrow> world" where
  "on event l w = (emit_effect (On event l) w)\<lparr>listeners := listeners w @ [(event, l)]\<rparr>"

definition watch :: "world \<Rightarrow> world" where
  "watch w = (emit_effect Watch w)\<lparr>watching := True\<rparr>"

definition unwatch :: "world \<Rightarrow> world" where
  "unwatch w = (emit_effect Unwatch w)\<lparr>watching := False\<rparr>"

text \<open>A call either returns or throws a message; the world it leaves is kept in both cases.\<close>

datatype outcome = Returned | Threw string

subsection \<open>The helper functions of the script\<close>

text \<open>
  \<^verbatim>\<open>formatDeviceList\<close>: a \<^verbatim>\<open>reduce\<close> from the empty string, that is a left fold.
\<close>

definition formatDeviceList :: "env \<Rightarrow> device list \<Rightarrow> string" where
  "formatDeviceList E deviceList =
     foldl (\<lambda>previousValue device.
              previousValue @ ''- '' @ toStatusString E device @ [CHR 0x0A])
       [] deviceList"

definition separator :: string where
  "separator = ''========================================''"

text \<open>
  \<^verbatim>\<open>executeCommandOnDevices\<close>: \<^verbatim>\<open>forEach\<close> visits the devices in order; a throw of
  \<^verbatim>\<open>executeCommandSync\<close> leaves the loop at once. \<^verbatim>\<open>console.log\<close> joins its
  arguments with one space, and prints an empty line when it has none.
\<close>

fun executeCommandOnDevices :: "env \<Rightarrow> device list \<Rightarrow> string \<Rightarrow> world \<Rightarrow> outcome \<times> world" where
  "executeCommandOnDevices E [] command w = (Returned, w)"
| "executeCommandOnDevices E (device # devices) command w =
     (let w1 = consoleLog [] w;
          w2 = consoleLog separator w1;
          w3 = consoleLog (''Result for '' @ id_dev device @ '' '' @ (''('' @ model device @ '')'')) w2;
          w4 = consoleLog separator w3;
          w5 = emit_effect (ExecuteCommandSync device command) w4
      in case executeCommandSync E device command of
           Inl error \<Rightarrow> (Threw error, w5)
         | Inr result \<Rightarrow>
             executeCommandOnDevices E devices command (consoleLog (paint E Cyan result) w5))"

text \<open>The two sublists \<^verbatim>\<open>executeForOnlineDevices\<close> computes with \<^verbatim>\<open>filter\<close>.\<close>

definition onlineDevices :: "device list \<Rightarrow> device list" where
  "onlineDevices devices = filter (\<lambda>device. isOnline device) devices"

definition offlineDevices :: "device list \<Rightarrow> device list" where
  "offlineDevices devices = filter (\<lambda>device. \<not> isOnline device) devices"

definition executeForOnlineDevices :: "env \<Rightarrow> device list \<Rightarrow> string \<Rightarrow> world \<Rightarrow> outcome \<times> world" where
  "executeForOnlineDevices E devices command w =
     (if length (onlineDevices devices) > 0 then
        executeCommandOnDevices E (onlineDevices devices) command
          (consoleLog (''devices detected:'' @ [CHR 0x0A]
                         @ paint E Green (formatDeviceList E (onlineDevices devices))) w)
      else if length (offlineDevices devices) > 0 then
        (Returned,
         consoleLog (''offline devices detected:'' @ [CHR 0x0A]
                       @ paint E Red (formatDeviceList E (offlineDevices devices))) w)
      else
        (Returned, consoleError (paint E Red (''no devices detected'' @ [CHR 0x0A])) w))"

text \<open>
  \<^verbatim>\<open>newOrChangedDevicesListener\<close>: whatever \<^verbatim>\<open>executeForOnlineDevices\<close> throws is
  printed in red on standard error, and then the handler calls \<^verbatim>\<open>unwatch\<close>.
\<close>

definition newOrChangedDevicesListener :: "env \<Rightarrow> string \<Rightarrow> device list \<Rightarrow> world \<Rightarrow> world" where
  "newOrChangedDevicesListener E command devices w =
     (case executeForOnlineDevices E devices command w of
        (Returned, w1) \<Rightarrow> w1
      | (Threw error, w1) \<Rightarrow> unwatch (consoleError (paint E Red error) w1))"

definition executeForFutureDevices :: "string \<Rightarrow> world \<Rightarrow> world" where
  "executeForFutureDevices command w =
     watch (on ''devicesChanged'' NewOrChangedDevicesListener
             (on ''devicesAdded'' NewOrChangedDevicesListener w))"

text \<open>
  The top level of the script, from \<^verbatim>\<open>deviceDetector.getDevices()\<close> on. The argument
  of \<^verbatim>\<open>executeForOnlineDevices\<close> is evaluated first, inside the \<^verbatim>\<open>try\<close>; the
  \<^verbatim>\<open>catch\<close> prints the message and ends the process, so nothing after it runs.
\<close>

definition main :: "env \<Rightarrow> string \<Rightarrow> bool \<Rightarrow> world \<Rightarrow> world" where
  "main E command continue w =
     (case (case getDevices E of
              Inl error \<Rightarrow> (Threw error, emit_effect GetDevices w)
            | Inr devices \<Rightarrow>
                executeForOnlineDevices E devices command (emit_effect GetDevices w)) of
        (Threw error, w1) \<Rightarrow> processExit 1 (consoleError (paint E Red error) w1)
      | (Returned, w1) \<Rightarrow>
          if continue then executeForFutureDevices command w1 else w1)"

text \<open>
  Modelled from the spec: the delivery of one notification by the absent
  \<^verbatim>\<open>DeviceDetector\<close>: the event carries a device list, and every callback registered
  for that event is called with that list, in the order of registration.
\<close>

fun callListener :: "env \<Rightarrow> string \<Rightarrow> listener \<Rightarrow> device list \<Rightarrow> world \<Rightarrow> world" where
  "callListener E command NewOrChangedDevicesListener devices w =
     newOrChangedDevicesListener E command devices w"

definition notify :: "env \<Rightarrow> string \<Rightarrow> string \<Rightarrow> device list \<Rightarrow> world \<Rightarrow> world" where
  "notify E command event devices w =
     fold (\<lambda>l. callListener E command l devices)
       (map snd (filter (\<lambda>r. fst r = event) (listeners w))) w"

text \<open>The process as it starts: nothing done, detector idle, no handler.\<close>

definition initial :: world where
  "initial = \<lparr>trace = [], watching = False, listeners = [], exited = None\<rparr>"

text \<open>The devices on which a trace ran the command, in order.\<close>

fun executions :: "effect list \<Rightarrow> device list" where
  "executions [] = []"
| "executions (ExecuteCommandSync device command # es) = device # executions es"
| "executions (e # es) = executions es"

subsection \<open>What one round of the loop leaves in the trace\<close>

text \<open>
  The four lines the callback of \<^verbatim>\<open>executeCommandOnDevices\<close> prints before it runs the
  command on a device, and the whole round when the command returns \<open>result\<close>.
\<close>

definition resultLabel :: "device \<Rightarrow> effect list" where
  "resultLabel device =
     [ConsoleLog [], ConsoleLog separator,
      ConsoleLog (''Result for '' @ id_dev device @ '' ('' @ model device @ '')''),
      ConsoleLog separator]"

definition resultBlock :: "env \<Rightarrow> string \<Rightarrow> device \<Rightarrow> string \<Rightarrow> effect list" where
  "resultBlock E command device result =
     resultLabel device @ [ExecuteCommandSync device command, ConsoleLog (paint E Cyan result)]"

text \<open>The line one device contributes to \<^verbatim>\<open>formatDeviceList\<close>.\<close>

definition statusLine :: "env \<Rightarrow> device \<Rightarrow> string" where
  "statusLine E device = ''- '' @ toStatusString E device @ [CHR 0x0A]"

subsection \<open>The device list as an array in the heap\<close>

text \<open>
  Whether \<^verbatim>\<open>formatDeviceList\<close> changes the list it is given is a question about the
  array object of the caller. Here arrays live in a heap, a map from references to lists.
  \<^verbatim>\<open>Array.prototype.reduce\<close> with an initial value reads the length once and then visits
  the indices in order (\<open>k\<close> is the next index, the other number counts the indices
  left); it reads each element from the heap when it gets there, skips an index that is
  no longer present, and its callback may change the heap.
\<close>

type_synonym ref = nat

type_synonym heap = "ref \<Rightarrow> device list"

fun reduce :: "(heap \<Rightarrow> 'a \<Rightarrow> device \<Rightarrow> 'a \<times> heap) \<Rightarrow> ref \<Rightarrow> nat \<Rightarrow> nat \<Rightarrow> 'a \<Rightarrow> heap \<Rightarrow> 'a \<times> heap" where
  "reduce callback array k 0 accumulator h = (accumulator, h)"
| "reduce callback array k (Suc n) accumulator h =
     (if k < length (h array)
      then case callback h accumulator (h array ! k) of
             (accumulator', h') \<Rightarrow> reduce callback array (Suc k) n accumulator' h'
      else reduce callback array (Suc k) n accumulator h)"

text \<open>
  \<^verbatim>\<open>formatDeviceList\<close> on the array at the reference \<open>deviceList\<close>: the callback of the
  script builds the next string and assigns to nothing.
\<close>

definition formatDeviceList_heap :: "env \<Rightarrow> ref \<Rightarrow> heap \<Rightarrow> string \<times> heap" where
  "formatDeviceList_heap E deviceList h =
     reduce (\<lambda>h previousValue device.
               (previousValue @ ''- '' @ toStatusString E device @ [CHR 0x0A], h))
       deviceList 0 (length (h deviceList)) [] h"

subsection \<open>Sample devices and collaborators\<close>

definition deviceA :: device where
  "deviceA = \<lparr>id_dev = ''A'', model = ''Pixel'', state = Online\<rparr>"

definition deviceB :: device where
  "deviceB = \<lparr>id_dev = ''B'', model = ''Nexus'', state = Offline\<rparr>"

definition deviceC :: device where
  "deviceC = \<lparr>id_dev = ''C'', model = ''Galaxy'', state = Online\<rparr>"

definition deviceD :: device where
  "deviceD = \<lparr>id_dev = ''D'', model = ''Moto'', state = Online\<rparr>"

text \<open>
  A host without colours on which every command succeeds, except on the device C, where
  it times out; the snapshot holds the device A alone.
\<close>

definition sampleEnv :: env where
  "sampleEnv =
     \<lparr>executeCommandSync =
        (\<lambda>device command. if id_dev device = ''C'' then Inl ''timeout'' else Inr ''Success''),
      toStatusString = (\<lambda>device. id_dev device @ '' '' @ model device),
      paint = (\<lambda>colour s. s),
      getDevices = Inr [deviceA]\<rparr>"

text \<open>The same host when adb cannot list the devices.\<close>

definition brokenEnv :: env where
  "brokenEnv = sampleEnv\<lparr>getDevices := Inl ''adb not found''\<rparr>"

section \<open>Properties\<close>

subsection \<open>Auxiliary facts about the trace\<close>


lemma foldl_statusLine:
  "foldl (\<lambda>previousValue device. previousValue @ statusLine E device) acc ds
     = acc @ concat (map (statusLine E) ds)"
  by (induction ds arbitrary: acc) simp_all

lemma executions_append: "executions (xs @ ys) = executions xs @ executions ys"
  by (induction xs rule: executions.induct) simp_all

lemma executions_resultLabel: "executions (resultLabel d) = []"
  by (simp add: resultLabel_def)

lemma executions_resultBlock: "executions (resultBlock E c d r) = [d]"
  by (simp add: resultBlock_def executions_append executions_resultLabel)

lemma executions_blocks:
  "executions (concat (map (\<lambda>d. resultBlock E c d (res d)) ds)) = ds"
  by (induction ds) (simp_all add: executions_append executions_resultBlock)

lemma round_ok:
  "executeCommandSync E d c = Inr r \<Longrightarrow>
   executeCommandOnDevices E (d # ds) c w =
     executeCommandOnDevices E ds c (w\<lparr>trace := trace w @ resultBlock E c d r\<rparr>)"
  by (simp add: resultBlock_def resultLabel_def consoleLog_def emit_effect_def)

lemma round_fail:
  "executeCommandSync E d c = Inl err \<Longrightarrow>
   executeCommandOnDevices E (d # ds) c w =
     (Threw err, w\<lparr>trace := trace w @ resultLabel d @ [ExecuteCommandSync d c]\<rparr>)"
  by (simp add: resultLabel_def consoleLog_def emit_effect_def)

lemma all_ok:
  "\<forall>d\<in>set ds. executeCommandSync E d c = Inr (res d) \<Longrightarrow>
   executeCommandOnDevices E ds c w =
     (Returned, w\<lparr>trace := trace w @ concat (map (\<lambda>d. resultBlock E c d (res d)) ds)\<rparr>)"
proof (induction ds arbitrary: w)
  case Nil
  show ?case by simp
next
  case (Cons d ds)
  from Cons.prems have d: "executeCommandSync E d c = Inr (res d)" by simp
  from Cons.prems have rest: "\<forall>x\<in>set ds. executeCommandSync E x c = Inr (res x)" by simp
  show ?case
    unfolding round_ok [OF d] Cons.IH [OF rest] by simp
qed

lemma first_failure:
  "\<forall>d\<in>set pre. executeCommandSync E d c = Inr (res d) \<Longrightarrow>
   executeCommandSync E dk c = Inl err \<Longrightarrow>
   executeCommandOnDevices E (pre @ dk # post) c w =
     (Threw err, w\<lparr>trace := trace w @ concat (map (\<lambda>d. resultBlock E c d (res d)) pre)
                                @ resultLabel dk @ [ExecuteCommandSync dk c]\<rparr>)"
proof (induction pre arbitrary: w)
  case Nil
  then show ?case by (simp add: round_fail del: executeCommandOnDevices.simps)
next
  case (Cons d pre)
  from Cons.prems have d: "executeCommandSync E d c = Inr (res d)" by simp
  from Cons.prems have rest: "\<forall>x\<in>set pre. executeCommandSync E x c = Inr (res x)" by simp
  have "executeCommandOnDevices E ((d # pre) @ dk # post) c w =
        executeCommandOnDevices E (pre @ dk # post) c (w\<lparr>trace := trace w @ resultBlock E c d (res d)\<rparr>)"
    using round_ok [OF d] by simp
  then show ?case
    unfolding Cons.IH [OF rest Cons.prems(2)] by simp
qed


lemma formatDeviceList_statusLines:
  "formatDeviceList E ds = concat (map (statusLine E) ds)"
proof -
  have "formatDeviceList E ds =
        foldl (\<lambda>previousValue device. previousValue @ statusLine E device) [] ds"
    by (simp add: formatDeviceList_def statusLine_def)
  then show ?thesis by (simp add: foldl_statusLine)
qed

lemma onlineDevices_idem: "onlineDevices (onlineDevices ds) = onlineDevices ds"
  by (simp add: onlineDevices_def)

lemma offline_all: "onlineDevices ds = [] \<Longrightarrow> offlineDevices ds = ds"
  by (simp add: onlineDevices_def offlineDevices_def filter_empty_conv)

lemma run_extends:
  "executeCommandOnDevices E ds c w = (r, w') \<Longrightarrow>
   \<exists>t. w' = w\<lparr>trace := trace w @ t\<rparr> \<and> prefix (executions t) ds"
proof (induction ds arbitrary: w)
  case Nil
  then have "w' = w\<lparr>trace := trace w @ []\<rparr> \<and> prefix (executions []) ([]::device list)" by simp
  then show ?case by blast
next
  case (Cons d ds)
  show ?case
  proof (cases "executeCommandSync E d c")
    case (Inl err)
    from Cons.prems have "w' = w\<lparr>trace := trace w @ resultLabel d @ [ExecuteCommandSync d c]\<rparr>"
      unfolding round_fail [OF Inl] by simp
    moreover have "prefix (executions (resultLabel d @ [ExecuteCommandSync d c])) (d # ds)"
      by (simp add: executions_append executions_resultLabel)
    ultimately show ?thesis by blast
  next
    case (Inr res)
    from Cons.prems obtain t where
      t: "w' = (w\<lparr>trace := trace w @ resultBlock E c d res\<rparr>)\<lparr>trace := trace (w\<lparr>trace := trace w @ resultBlock E c d res\<rparr>) @ t\<rparr>"
      and p: "prefix (executions t) ds"
      unfolding round_ok [OF Inr] using Cons.IH by blast
    from t have "w' = w\<lparr>trace := trace w @ (resultBlock E c d res @ t)\<rparr>" by simp
    moreover from p have "prefix (executions (resultBlock E c d res @ t)) (d # ds)"
      by (simp add: executions_append executions_resultBlock)
    ultimately show ?thesis by blast
  qed
qed

lemma online_run:
  "onlineDevices ds \<noteq> [] \<Longrightarrow>
   executeForOnlineDevices E ds c w =
     executeCommandOnDevices E (onlineDevices ds) c
       (w\<lparr>trace := trace w @ [ConsoleLog (''devices detected:'' @ [CHR 0x0A]
                 @ paint E Green (formatDeviceList E (onlineDevices ds)))]\<rparr>)"
  by (simp add: executeForOnlineDevices_def consoleLog_def emit_effect_def)

lemma for_online_extends:
  assumes "executeForOnlineDevices E ds c w = (r, w')"
  shows "\<exists>t. w' = w\<lparr>trace := trace w @ t\<rparr> \<and> prefix (executions t) (onlineDevices ds)"
proof (cases "onlineDevices ds = []")
  case True
  let ?e = "if length (offlineDevices ds) > 0
            then ConsoleLog (''offline devices detected:'' @ [CHR 0x0A]
                       @ paint E Red (formatDeviceList E (offlineDevices ds)))
            else ConsoleError (paint E Red (''no devices detected'' @ [CHR 0x0A]))"
  from assms True have "w' = w\<lparr>trace := trace w @ [?e]\<rparr>"
    by (simp add: executeForOnlineDevices_def consoleLog_def consoleError_def emit_effect_def
             split: if_splits)
  moreover have "prefix (executions [?e]) (onlineDevices ds)" by simp
  ultimately show ?thesis by blast
next
  case False
  let ?h = "ConsoleLog (''devices detected:'' @ [CHR 0x0A]
                 @ paint E Green (formatDeviceList E (onlineDevices ds)))"
  from assms obtain t where
    t: "w' = (w\<lparr>trace := trace w @ [?h]\<rparr>)\<lparr>trace := trace (w\<lparr>trace := trace w @ [?h]\<rparr>) @ t\<rparr>"
    and p: "prefix (executions t) (onlineDevices ds)"
    unfolding online_run [OF False] using run_extends by blast
  from t have "w' = w\<lparr>trace := trace w @ (?h # t)\<rparr>" by simp
  moreover from p have "prefix (executions (?h # t)) (onlineDevices ds)" by simp
  ultimately show ?thesis by blast
qed


lemma run_ignores_snapshot:
  "executeCommandOnDevices (E\<lparr>getDevices := g\<rparr>) ds c w = executeCommandOnDevices E ds c w"
  by (induction ds arbitrary: w) (simp_all add: Let_def split: sum.splits)

lemma for_online_ignores_snapshot:
  "executeForOnlineDevices (E\<lparr>getDevices := g\<rparr>) ds c w = executeForOnlineDevices E ds c w"
  by (simp add: executeForOnlineDevices_def formatDeviceList_def run_ignores_snapshot)

lemma main_query_ok:
  "main (E\<lparr>getDevices := Inr devices\<rparr>) command continue w =
     (case executeForOnlineDevices E devices command (w\<lparr>trace := trace w @ [GetDevices]\<rparr>) of
        (Threw error, w1) \<Rightarrow>
          w1\<lparr>trace := trace w1 @ [ConsoleError (paint E Red error), ProcessExit 1], exited := Some 1\<rparr>
      | (Returned, w1) \<Rightarrow>
          if continue
          then w1\<lparr>trace := trace w1 @ [On ''devicesAdded'' NewOrChangedDevicesListener,
                                        On ''devicesChanged'' NewOrChangedDevicesListener, Watch],
                  listeners := listeners w1 @ [(''devicesAdded'', NewOrChangedDevicesListener),
                                               (''devicesChanged'', NewOrChangedDevicesListener)],
                  watching := True\<rparr>
          else w1)"
  by (simp add: main_def for_online_ignores_snapshot emit_effect_def processExit_def
        consoleError_def executeForFutureDevices_def watch_def on_def
      split: prod.splits outcome.splits)

lemma main_query_failed:
  "main (E\<lparr>getDevices := Inl error\<rparr>) command continue w =
     w\<lparr>trace := trace w @ [GetDevices, ConsoleError (paint E Red error), ProcessExit 1],
       exited := Some 1\<rparr>"
  by (simp add: main_def emit_effect_def processExit_def consoleError_def)

lemma listener_threw:
  "executeForOnlineDevices E ds c w = (Threw error, w1) \<Longrightarrow>
   newOrChangedDevicesListener E c ds w =
     w1\<lparr>trace := trace w1 @ [ConsoleError (paint E Red error), Unwatch], watching := False\<rparr>"
  by (simp add: newOrChangedDevicesListener_def unwatch_def consoleError_def emit_effect_def)


lemma for_online_first_failure:
  assumes "onlineDevices ds = pre @ dk # post"
      and "\<forall>d\<in>set pre. executeCommandSync E d c = Inr (res d)"
      and "executeCommandSync E dk c = Inl err"
  shows "executeForOnlineDevices E ds c w =
     (Threw err,
      w\<lparr>trace := trace w @
           ConsoleLog (''devices detected:'' @ [CHR 0x0A]
              @ paint E Green (formatDeviceList E (onlineDevices ds)))
           # concat (map (\<lambda>d. resultBlock E c d (res d)) pre)
           @ resultLabel dk @ [ExecuteCommandSync dk c]\<rparr>)"
proof -
  from assms(1) have ne: "onlineDevices ds \<noteq> []" by simp
  have "executeCommandOnDevices E (onlineDevices ds) c v =
        (Threw err, v\<lparr>trace := trace v @ concat (map (\<lambda>d. resultBlock E c d (res d)) pre)
                                @ resultLabel dk @ [ExecuteCommandSync dk c]\<rparr>)" for v
    unfolding assms(1) by (rule first_failure [OF assms(2) assms(3)])
  then show ?thesis unfolding online_run [OF ne] by simp
qed


lemma sample_devices [simp]:
  "id_dev deviceA = ''A''" "model deviceA = ''Pixel''" "isOnline deviceA"
  "id_dev deviceB = ''B''" "model deviceB = ''Nexus''" "\<not> isOnline deviceB"
  "id_dev deviceC = ''C''" "model deviceC = ''Galaxy''" "isOnline deviceC"
  "id_dev deviceD = ''D''" "model deviceD = ''Moto''" "isOnline deviceD"
  by (simp_all add: deviceA_def deviceB_def deviceC_def deviceD_def isOnline_def)

lemma sample_host [simp]:
  "executeCommandSync sampleEnv deviceA command = Inr ''Success''"
  "executeCommandSync sampleEnv deviceC command = Inl ''timeout''"
  "executeCommandSync sampleEnv deviceD command = Inr ''Success''"
  "toStatusString sampleEnv device = id_dev device @ '' '' @ model device"
  "paint sampleEnv colour s = s"
  by (simp_all add: sampleEnv_def)


lemma sample_snapshot: "sampleEnv\<lparr>getDevices := Inr [deviceA]\<rparr> = sampleEnv"
  by (simp add: sampleEnv_def)

lemma first_failing_device:
  assumes "device \<in> set ds" and "executeCommandSync E device c = Inl message"
  shows "\<exists>pre dk post err. ds = pre @ dk # post
           \<and> (\<forall>d\<in>set pre. executeCommandSync E d c = Inr (projr (executeCommandSync E d c)))
           \<and> executeCommandSync E dk c = Inl err"
proof -
  from assms have "\<exists>d\<in>set ds. isl (executeCommandSync E d c)" by force
  from split_list_first_prop [OF this] obtain pre dk post where
    split: "ds = pre @ dk # post" and
    dk: "isl (executeCommandSync E dk c)" and
    pre: "\<forall>d\<in>set pre. \<not> isl (executeCommandSync E d c)"
    by blast
  from dk obtain err where "executeCommandSync E dk c = Inl err"
    by (cases "executeCommandSync E dk c") simp_all
  moreover from pre have
    "\<forall>d\<in>set pre. executeCommandSync E d c = Inr (projr (executeCommandSync E d c))"
    by (metis sum.collapse(2))
  ultimately show ?thesis using split by blast
qed


lemma listener_ignores_snapshot:
  "newOrChangedDevicesListener (E\<lparr>getDevices := g\<rparr>) c ds w = newOrChangedDevicesListener E c ds w"
  by (simp add: newOrChangedDevicesListener_def for_online_ignores_snapshot
      split: prod.splits outcome.splits)




lemma run_queries:
  "filter ((=) GetDevices) (trace (snd (executeCommandOnDevices E ds c w)))
     = filter ((=) GetDevices) (trace w)"
  by (induction ds arbitrary: w)
     (simp_all add: Let_def consoleLog_def emit_effect_def split: sum.splits)

lemma for_online_queries:
  "filter ((=) GetDevices) (trace (snd (executeForOnlineDevices E ds c w)))
     = filter ((=) GetDevices) (trace w)"
  by (simp add: executeForOnlineDevices_def run_queries consoleLog_def consoleError_def
        emit_effect_def)

lemma listener_queries:
  "filter ((=) GetDevices) (trace (newOrChangedDevicesListener E c ds w))
     = filter ((=) GetDevices) (trace w)"
proof (cases "executeForOnlineDevices E ds c w")
  case (Pair r w1)
  with for_online_queries [of E ds c w]
  have "filter ((=) GetDevices) (trace w1) = filter ((=) GetDevices) (trace w)" by simp
  with Pair show ?thesis
    by (cases r)
       (simp_all add: newOrChangedDevicesListener_def unwatch_def consoleError_def
          emit_effect_def)
qed

lemma no_query_in_suffix:
  "filter ((=) GetDevices) (xs @ t) = filter ((=) GetDevices) xs \<Longrightarrow> GetDevices \<notin> set t"
  by (auto simp add: filter_empty_conv)

lemma online_filter: "onlineDevices ds = filter isOnline ds"
  by (simp add: onlineDevices_def)

lemma reduce_lines:
  "k + n = length (h r) \<Longrightarrow>
   reduce (\<lambda>h previousValue device.
             (previousValue @ ''- '' @ toStatusString E device @ [CHR 0x0A], h)) r k n acc h
     = (acc @ concat (map (\<lambda>device. ''- '' @ toStatusString E device @ [CHR 0x0A])
                        (drop k (h r))), h)"
proof (induction n arbitrary: k acc)
  case 0
  then show ?case by simp
next
  case (Suc n)
  from Suc.prems have k: "k < length (h r)" and next_k: "Suc k + n = length (h r)" by simp_all
  from k have "drop k (h r) = h r ! k # drop (Suc k) (h r)"
    by (simp add: Cons_nth_drop_Suc)
  with k Suc.IH [OF next_k] show ?case by simp
qed

subsection \<open>The claims\<close>

text \<open>
  Claim C1, as the script has it. When the command fails on some online device of a
  notification batch, let \<open>failing\<close> be the first online device of the batch on which it
  fails, with the message \<open>error\<close>. The handler \<^verbatim>\<open>newOrChangedDevicesListener\<close> lists
  the online devices, prints the blocks of the devices before \<open>failing\<close> with their
  results, prints the label of \<open>failing\<close> and runs the command on it, then reports
  \<open>error\<close> on standard error and calls \<^verbatim>\<open>unwatch\<close>, and does nothing else: the detector
  is left idle, the process is not terminated (no \<^verbatim>\<open>process.exit\<close>), the registered
  handlers stay registered, and the handler does not query the detector, so that no
  detection failure can occur in it.
\<close>

theorem listener_unwatches_on_execution_failure:
  assumes "device \<in> set devices" and "isOnline device"
      and "executeCommandSync E device command = Inl message"
  shows "\<exists>earlier failing later error.
           filter isOnline devices = earlier @ failing # later
         \<and> (\<forall>d\<in>set earlier. \<not> isl (executeCommandSync E d command))
         \<and> executeCommandSync E failing command = Inl error
         \<and> newOrChangedDevicesListener E command devices w =
             w\<lparr>trace := trace w @
                 ConsoleLog (''devices detected:'' @ [CHR 0x0A]
                    @ paint E Green (formatDeviceList E (filter isOnline devices)))
                 # concat (map (\<lambda>d. resultBlock E command d
                                       (projr (executeCommandSync E d command))) earlier)
                 @ resultLabel failing
                 @ [ExecuteCommandSync failing command, ConsoleError (paint E Red error), Unwatch],
               watching := False\<rparr>
         \<and> GetDevices \<notin> set (drop (length (trace w))
                                 (trace (newOrChangedDevicesListener E command devices w)))
         \<and> \<not> watching (newOrChangedDevicesListener E command devices w)
         \<and> exited (newOrChangedDevicesListener E command devices w) = exited w
         \<and> listeners (newOrChangedDevicesListener E command devices w) = listeners w"
proof -
  from assms(1,2) have mem: "device \<in> set (onlineDevices devices)"
    by (simp add: online_filter)
  from first_failing_device [OF mem assms(3)] obtain pre dk post err where
    split: "onlineDevices devices = pre @ dk # post" and
    pre: "\<forall>d\<in>set pre. executeCommandSync E d command
            = Inr (projr (executeCommandSync E d command))" and
    dk: "executeCommandSync E dk command = Inl err"
    by blast
  let ?t = "ConsoleLog (''devices detected:'' @ [CHR 0x0A]
              @ paint E Green (formatDeviceList E (filter isOnline devices)))
           # concat (map (\<lambda>d. resultBlock E command d (projr (executeCommandSync E d command))) pre)
           @ resultLabel dk
           @ [ExecuteCommandSync dk command, ConsoleError (paint E Red err), Unwatch]"
  note run = for_online_first_failure [OF split pre dk, of w]
  have after: "newOrChangedDevicesListener E command devices w =
      w\<lparr>trace := trace w @ ?t, watching := False\<rparr>"
    unfolding listener_threw [OF run] by (simp add: online_filter)
  from split have split': "filter isOnline devices = pre @ dk # post"
    by (simp add: online_filter)
  from pre have pre': "\<forall>d\<in>set pre. \<not> isl (executeCommandSync E d command)"
    by (metis sum.disc(2))
  have "filter ((=) GetDevices) (trace w @ ?t) = filter ((=) GetDevices) (trace w)"
    using listener_queries [of E command devices w] unfolding after by simp
  then have "GetDevices \<notin> set ?t" by (rule no_query_in_suffix)
  then have noq: "GetDevices \<notin> set (drop (length (trace w))
                                 (trace (newOrChangedDevicesListener E command devices w)))"
    unfolding after by simp
  have world: "\<not> watching (newOrChangedDevicesListener E command devices w)"
    "exited (newOrChangedDevicesListener E command devices w) = exited w"
    "listeners (newOrChangedDevicesListener E command devices w) = listeners w"
    unfolding after by simp_all
  from split' pre' dk after noq world show ?thesis
    by (intro exI [of _ pre] exI [of _ dk] exI [of _ post] exI [of _ err]) simp
qed

theorem listener_unwatches_on_execution_failure_witness:
  "deviceC \<in> set [deviceB, deviceA, deviceC, deviceD] \<and> isOnline deviceC
   \<and> executeCommandSync sampleEnv deviceC ''shell ls'' = Inl ''timeout''
   \<and> newOrChangedDevicesListener sampleEnv ''shell ls'' [deviceB, deviceA, deviceC, deviceD]
        (executeForFutureDevices ''shell ls'' initial) =
       \<lparr>trace = [On ''devicesAdded'' NewOrChangedDevicesListener,
                 On ''devicesChanged'' NewOrChangedDevicesListener, Watch,
                 ConsoleLog (''devices detected:'' @ [CHR 0x0A] @ ''- A Pixel'' @ [CHR 0x0A]
                               @ ''- C Galaxy'' @ [CHR 0x0A] @ ''- D Moto'' @ [CHR 0x0A]),
                 ConsoleLog [], ConsoleLog separator, ConsoleLog ''Result for A (Pixel)'',
                 ConsoleLog separator, ExecuteCommandSync deviceA ''shell ls'',
                 ConsoleLog ''Success'',
                 ConsoleLog [], ConsoleLog separator, ConsoleLog ''Result for C (Galaxy)'',
                 ConsoleLog separator, ExecuteCommandSync deviceC ''shell ls'',
                 ConsoleError ''timeout'', Unwatch],
        watching = False,
        listeners = [(''devicesAdded'', NewOrChangedDevicesListener),
                     (''devicesChanged'', NewOrChangedDevicesListener)],
        exited = None\<rparr>"
proof -
  have h1: "deviceC \<in> set [deviceB, deviceA, deviceC, deviceD]" by simp
  have h2: "isOnline deviceC" by simp
  have h3: "executeCommandSync sampleEnv deviceC ''shell ls'' = Inl ''timeout''" by simp
  let ?w = "executeForFutureDevices ''shell ls'' initial"
  have w: "?w = \<lparr>trace = [On ''devicesAdded'' NewOrChangedDevicesListener,
                          On ''devicesChanged'' NewOrChangedDevicesListener, Watch],
                 watching = True,
                 listeners = [(''devicesAdded'', NewOrChangedDevicesListener),
                              (''devicesChanged'', NewOrChangedDevicesListener)],
                 exited = None\<rparr>"
    by (simp add: executeForFutureDevices_def watch_def on_def emit_effect_def initial_def)
  from listener_unwatches_on_execution_failure [OF h1 h2 h3, of ?w]
  obtain earlier failing later error where
    split: "filter isOnline [deviceB, deviceA, deviceC, deviceD] = earlier @ failing # later" and
    ok: "\<forall>d\<in>set earlier. \<not> isl (executeCommandSync sampleEnv d ''shell ls'')" and
    bad: "executeCommandSync sampleEnv failing ''shell ls'' = Inl error" and
    after: "newOrChangedDevicesListener sampleEnv ''shell ls'' [deviceB, deviceA, deviceC, deviceD] ?w =
             ?w\<lparr>trace := trace ?w @
                 ConsoleLog (''devices detected:'' @ [CHR 0x0A]
                    @ paint sampleEnv Green
                        (formatDeviceList sampleEnv (filter isOnline [deviceB, deviceA, deviceC, deviceD])))
                 # concat (map (\<lambda>d. resultBlock sampleEnv ''shell ls'' d
                                       (projr (executeCommandSync sampleEnv d ''shell ls''))) earlier)
                 @ resultLabel failing
                 @ [ExecuteCommandSync failing ''shell ls'',
                    ConsoleError (paint sampleEnv Red error), Unwatch],
               watching := False\<rparr>"
    by blast
  have "newOrChangedDevicesListener sampleEnv ''shell ls'' [deviceB, deviceA, deviceC, deviceD] ?w
        = \<lparr>trace = [On ''devicesAdded'' NewOrChangedDevicesListener,
                 On ''devicesChanged'' NewOrChangedDevicesListener, Watch,
                 ConsoleLog (''devices detected:'' @ [CHR 0x0A] @ ''- A Pixel'' @ [CHR 0x0A]
                               @ ''- C Galaxy'' @ [CHR 0x0A] @ ''- D Moto'' @ [CHR 0x0A]),
                 ConsoleLog [], ConsoleLog separator, ConsoleLog ''Result for A (Pixel)'',
                 ConsoleLog separator, ExecuteCommandSync deviceA ''shell ls'',
                 ConsoleLog ''Success'',
                 ConsoleLog [], ConsoleLog separator, ConsoleLog ''Result for C (Galaxy)'',
                 ConsoleLog separator, ExecuteCommandSync deviceC ''shell ls'',
                 ConsoleError ''timeout'', Unwatch],
        watching = False,
        listeners = [(''devicesAdded'', NewOrChangedDevicesListener),
                     (''devicesChanged'', NewOrChangedDevicesListener)],
        exited = None\<rparr>"
    unfolding w
    by (simp add: newOrChangedDevicesListener_def executeForOnlineDevices_def
          onlineDevices_def formatDeviceList_def consoleLog_def consoleError_def
          emit_effect_def unwatch_def)
  with h1 h2 h3 show ?thesis by blast
qed

text \<open>
  The claim C1 as stated (an execution failure in a batch never disables the watch) fails:
  the detector is watching, a notification carries the online device C, the command times
  out on C, and after the handler has run the detector is not watching any more; the last
  effect is the call of \<^verbatim>\<open>unwatch\<close>.
\<close>

theorem execution_failure_disables_watch_counterexample:
  "watching (executeForFutureDevices ''shell ls'' initial)
   \<and> executeCommandSync sampleEnv deviceC ''shell ls'' = Inl ''timeout''
   \<and> \<not> watching (notify sampleEnv ''shell ls'' ''devicesAdded'' [deviceC]
                    (executeForFutureDevices ''shell ls'' initial))
   \<and> trace (notify sampleEnv ''shell ls'' ''devicesAdded'' [deviceC]
               (executeForFutureDevices ''shell ls'' initial)) =
       [On ''devicesAdded'' NewOrChangedDevicesListener,
        On ''devicesChanged'' NewOrChangedDevicesListener, Watch,
        ConsoleLog (''devices detected:'' @ [CHR 0x0A] @ ''- C Galaxy'' @ [CHR 0x0A]),
        ConsoleLog [], ConsoleLog separator, ConsoleLog ''Result for C (Galaxy)'',
        ConsoleLog separator, ExecuteCommandSync deviceC ''shell ls'',
        ConsoleError ''timeout'', Unwatch]"
  by (simp add: notify_def executeForFutureDevices_def watch_def on_def unwatch_def
        emit_effect_def initial_def newOrChangedDevicesListener_def
        executeForOnlineDevices_def onlineDevices_def formatDeviceList_def
        consoleLog_def consoleError_def)

text \<open>
  Claim C2. Fail-fast per batch: let the online devices of a batch be \<open>earlier\<close>, then
  \<open>failing\<close>, then \<open>later\<close>, where the command succeeds on every device of \<open>earlier\<close> and
  throws \<open>error\<close> on \<open>failing\<close>. Then the blocks of \<open>earlier\<close> are printed with their
  results, the label of \<open>failing\<close> is printed and the command is run on it, and the next
  effect is already the report of \<open>error\<close> on standard error, by the handler of a
  notification as by the one-shot run: the command is run on no device of \<open>later\<close>.
\<close>

theorem fail_fast_per_batch:
  assumes "onlineDevices devices = earlier @ failing # later"
      and "\<forall>device\<in>set earlier. executeCommandSync E device command = Inr (result device)"
      and "executeCommandSync E failing command = Inl error"
  shows "executeForOnlineDevices E devices command w =
           (Threw error,
            w\<lparr>trace := trace w @
                 ConsoleLog (''devices detected:'' @ [CHR 0x0A]
                    @ paint E Green (formatDeviceList E (onlineDevices devices)))
                 # concat (map (\<lambda>device. resultBlock E command device (result device)) earlier)
                 @ resultLabel failing @ [ExecuteCommandSync failing command]\<rparr>)
         \<and> newOrChangedDevicesListener E command devices w =
             w\<lparr>trace := trace w @
                 ConsoleLog (''devices detected:'' @ [CHR 0x0A]
                    @ paint E Green (formatDeviceList E (onlineDevices devices)))
                 # concat (map (\<lambda>device. resultBlock E command device (result device)) earlier)
                 @ resultLabel failing
                 @ [ExecuteCommandSync failing command, ConsoleError (paint E Red error), Unwatch],
               watching := False\<rparr>
         \<and> main (E\<lparr>getDevices := Inr devices\<rparr>) command continue w =
             w\<lparr>trace := trace w @
                 GetDevices
                 # ConsoleLog (''devices detected:'' @ [CHR 0x0A]
                    @ paint E Green (formatDeviceList E (onlineDevices devices)))
                 # concat (map (\<lambda>device. resultBlock E command device (result device)) earlier)
                 @ resultLabel failing
                 @ [ExecuteCommandSync failing command, ConsoleError (paint E Red error),
                    ProcessExit 1],
               exited := Some 1\<rparr>
         \<and> executions (trace (newOrChangedDevicesListener E command devices w)) =
             executions (trace w) @ earlier @ [failing]"
proof -
  note run = for_online_first_failure [OF assms]
  have first: "executeForOnlineDevices E devices command w =
           (Threw error,
            w\<lparr>trace := trace w @
                 ConsoleLog (''devices detected:'' @ [CHR 0x0A]
                    @ paint E Green (formatDeviceList E (onlineDevices devices)))
                 # concat (map (\<lambda>device. resultBlock E command device (result device)) earlier)
                 @ resultLabel failing @ [ExecuteCommandSync failing command]\<rparr>)"
    by (rule run)
  have second: "newOrChangedDevicesListener E command devices w =
             w\<lparr>trace := trace w @
                 ConsoleLog (''devices detected:'' @ [CHR 0x0A]
                    @ paint E Green (formatDeviceList E (onlineDevices devices)))
                 # concat (map (\<lambda>device. resultBlock E command device (result device)) earlier)
                 @ resultLabel failing
                 @ [ExecuteCommandSync failing command, ConsoleError (paint E Red error), Unwatch],
               watching := False\<rparr>"
    unfolding listener_threw [OF run] by simp
  have third: "main (E\<lparr>getDevices := Inr devices\<rparr>) command continue w =
             w\<lparr>trace := trace w @
                 GetDevices
                 # ConsoleLog (''devices detected:'' @ [CHR 0x0A]
                    @ paint E Green (formatDeviceList E (onlineDevices devices)))
                 # concat (map (\<lambda>device. resultBlock E command device (result device)) earlier)
                 @ resultLabel failing
                 @ [ExecuteCommandSync failing command, ConsoleError (paint E Red error),
                    ProcessExit 1],
               exited := Some 1\<rparr>"
    unfolding main_query_ok run by simp
  have fourth: "executions (trace (newOrChangedDevicesListener E command devices w)) =
             executions (trace w) @ earlier @ [failing]"
    unfolding second
    by (simp add: executions_append executions_blocks executions_resultLabel)
  from first second third fourth show ?thesis by blast
qed

theorem fail_fast_per_batch_witness:
  "onlineDevices [deviceA, deviceB, deviceC, deviceA] = [deviceA] @ deviceC # [deviceA]
   \<and> executeCommandSync sampleEnv deviceA ''shell ls'' = Inr ''Success''
   \<and> executeCommandSync sampleEnv deviceC ''shell ls'' = Inl ''timeout''
   \<and> executions (trace (newOrChangedDevicesListener sampleEnv ''shell ls''
          [deviceA, deviceB, deviceC, deviceA] initial)) = [deviceA, deviceC]
   \<and> trace (newOrChangedDevicesListener sampleEnv ''shell ls''
          [deviceA, deviceB, deviceC, deviceA] initial) =
       [ConsoleLog (''devices detected:'' @ [CHR 0x0A] @ ''- A Pixel'' @ [CHR 0x0A]
                      @ ''- C Galaxy'' @ [CHR 0x0A] @ ''- A Pixel'' @ [CHR 0x0A]),
        ConsoleLog [], ConsoleLog separator, ConsoleLog ''Result for A (Pixel)'',
        ConsoleLog separator, ExecuteCommandSync deviceA ''shell ls'', ConsoleLog ''Success'',
        ConsoleLog [], ConsoleLog separator, ConsoleLog ''Result for C (Galaxy)'',
        ConsoleLog separator, ExecuteCommandSync deviceC ''shell ls'',
        ConsoleError ''timeout'', Unwatch]"
proof -
  have h1: "onlineDevices [deviceA, deviceB, deviceC, deviceA] = [deviceA] @ deviceC # [deviceA]"
    by (simp add: onlineDevices_def)
  have h2: "\<forall>device\<in>set [deviceA].
              executeCommandSync sampleEnv device ''shell ls'' = Inr ((\<lambda>d. ''Success'') device)"
    by simp
  have h3: "executeCommandSync sampleEnv deviceC ''shell ls'' = Inl ''timeout''"
    by simp
  show ?thesis
    using fail_fast_per_batch [OF h1 h2 h3, of initial False]
    by (simp add: onlineDevices_def formatDeviceList_def initial_def resultBlock_def
          resultLabel_def)
qed

text \<open>
  Claim C3. When the initial query \<^verbatim>\<open>getDevices\<close> throws, the script prints the message in
  red on standard error and calls \<^verbatim>\<open>process.exit(1)\<close>; it registers no handler and
  does not start the watch, also with \<^verbatim>\<open>--continue\<close>. When the query returns
  \<open>devices\<close> and the run over them returns normally (leaving the world \<open>v\<close>), the script
  does not exit; with \<^verbatim>\<open>--continue\<close> it goes on to register the handler for both events
  and to start the watch, and without it nothing more happens.
\<close>

theorem initial_query_failure_is_fatal:
  "main (E\<lparr>getDevices := Inl error\<rparr>) command continue w =
     w\<lparr>trace := trace w @ [GetDevices, ConsoleError (paint E Red error), ProcessExit 1],
       exited := Some 1\<rparr>
   \<and> (executeForOnlineDevices E devices command (emit_effect GetDevices w) = (Returned, v)
        \<longrightarrow> exited (main (E\<lparr>getDevices := Inr devices\<rparr>) command continue w) = exited w
          \<and> main (E\<lparr>getDevices := Inr devices\<rparr>) command continue w =
              (if continue
               then v\<lparr>trace := trace v @ [On ''devicesAdded'' NewOrChangedDevicesListener,
                                             On ''devicesChanged'' NewOrChangedDevicesListener,
                                             Watch],
                       listeners := listeners w @ [(''devicesAdded'', NewOrChangedDevicesListener),
                                                   (''devicesChanged'', NewOrChangedDevicesListener)],
                       watching := True\<rparr>
               else v))"
proof (intro conjI impI)
  show "main (E\<lparr>getDevices := Inl error\<rparr>) command continue w =
     w\<lparr>trace := trace w @ [GetDevices, ConsoleError (paint E Red error), ProcessExit 1],
       exited := Some 1\<rparr>"
    by (rule main_query_failed)
next
  assume run: "executeForOnlineDevices E devices command (emit_effect GetDevices w) = (Returned, v)"
  from for_online_extends [OF run] obtain t where
    v: "v = (emit_effect GetDevices w)\<lparr>trace := trace (emit_effect GetDevices w) @ t\<rparr>"
    by blast
  from v have same: "exited v = exited w" "listeners v = listeners w"
    by (simp_all add: emit_effect_def)
  from run have run': "executeForOnlineDevices E devices command (w\<lparr>trace := trace w @ [GetDevices]\<rparr>)
      = (Returned, v)"
    by (simp add: emit_effect_def)
  show "exited (main (E\<lparr>getDevices := Inr devices\<rparr>) command continue w) = exited w"
    unfolding main_query_ok run' using same by simp
  show "main (E\<lparr>getDevices := Inr devices\<rparr>) command continue w =
              (if continue
               then v\<lparr>trace := trace v @ [On ''devicesAdded'' NewOrChangedDevicesListener,
                                             On ''devicesChanged'' NewOrChangedDevicesListener,
                                             Watch],
                       listeners := listeners w @ [(''devicesAdded'', NewOrChangedDevicesListener),
                                                   (''devicesChanged'', NewOrChangedDevicesListener)],
                       watching := True\<rparr>
               else v)"
    unfolding main_query_ok run' using same by simp
qed

theorem initial_query_failure_is_fatal_witness:
  "main brokenEnv ''shell ls'' True initial =
     \<lparr>trace = [GetDevices, ConsoleError ''adb not found'', ProcessExit 1],
      watching = False, listeners = [], exited = Some 1\<rparr>
   \<and> executeForOnlineDevices sampleEnv [deviceA] ''shell ls'' (emit_effect GetDevices initial) =
       (Returned,
        \<lparr>trace = [GetDevices,
                  ConsoleLog (''devices detected:'' @ [CHR 0x0A] @ ''- A Pixel'' @ [CHR 0x0A]),
                  ConsoleLog [], ConsoleLog separator, ConsoleLog ''Result for A (Pixel)'',
                  ConsoleLog separator, ExecuteCommandSync deviceA ''shell ls'',
                  ConsoleLog ''Success''],
         watching = False, listeners = [], exited = None\<rparr>)
   \<and> exited (main sampleEnv ''shell ls'' True initial) = None
   \<and> main sampleEnv ''shell ls'' True initial =
       \<lparr>trace = [GetDevices,
                 ConsoleLog (''devices detected:'' @ [CHR 0x0A] @ ''- A Pixel'' @ [CHR 0x0A]),
                 ConsoleLog [], ConsoleLog separator, ConsoleLog ''Result for A (Pixel)'',
                 ConsoleLog separator, ExecuteCommandSync deviceA ''shell ls'',
                 ConsoleLog ''Success'',
                 On ''devicesAdded'' NewOrChangedDevicesListener,
                 On ''devicesChanged'' NewOrChangedDevicesListener, Watch],
        watching = True,
        listeners = [(''devicesAdded'', NewOrChangedDevicesListener),
                     (''devicesChanged'', NewOrChangedDevicesListener)],
        exited = None\<rparr>"
proof -
  let ?w1 = "\<lparr>trace = [GetDevices,
                  ConsoleLog (''devices detected:'' @ [CHR 0x0A] @ ''- A Pixel'' @ [CHR 0x0A]),
                  ConsoleLog [], ConsoleLog separator, ConsoleLog ''Result for A (Pixel)'',
                  ConsoleLog separator, ExecuteCommandSync deviceA ''shell ls'',
                  ConsoleLog ''Success''],
         watching = False, listeners = [], exited = None\<rparr>"
  have run: "executeForOnlineDevices sampleEnv [deviceA] ''shell ls'' (emit_effect GetDevices initial)
             = (Returned, ?w1)"
    by (simp add: executeForOnlineDevices_def onlineDevices_def formatDeviceList_def
          consoleLog_def emit_effect_def initial_def)
  have broken: "brokenEnv = sampleEnv\<lparr>getDevices := Inl ''adb not found''\<rparr>"
    by (simp add: brokenEnv_def)
  show ?thesis
    using initial_query_failure_is_fatal
            [where E = sampleEnv and error = "''adb not found''" and command = "''shell ls''"
               and continue = True and w = initial and devices = "[deviceA]" and v = ?w1]
          run
    unfolding broken sample_snapshot
    by (simp add: initial_def)
qed

text \<open>
  Claim C4. When some device of the list is online and the command succeeds on every
  online device of the list (with output \<open>result d\<close>), \<^verbatim>\<open>executeForOnlineDevices\<close>
  returns normally and adds to the trace the status lines of the devices that are online
  and then, for each device of the list that is online, in list order, one block: an empty
  line, the separator, the label \<^verbatim>\<open>Result for <id> (<model>)\<close>, the separator, the one run
  of the command on that device and its output. The one-shot run does the query first and
  then exactly this. So the command is run exactly once per online device, in list
  order, and on no other device.
\<close>

theorem one_shot_executes_every_online_device:
  assumes "device \<in> set devices" and "isOnline device"
      and "\<forall>d\<in>set devices. isOnline d \<longrightarrow> executeCommandSync E d command = Inr (result d)"
  shows "executeForOnlineDevices E devices command w =
           (Returned,
            w\<lparr>trace := trace w @
                 ConsoleLog (''devices detected:'' @ [CHR 0x0A]
                    @ paint E Green
                        (concat (map (\<lambda>d. ''- '' @ toStatusString E d @ [CHR 0x0A])
                                   (filter isOnline devices))))
                 # concat (map (\<lambda>d.
                      [ConsoleLog [], ConsoleLog separator,
                       ConsoleLog (''Result for '' @ id_dev d @ '' ('' @ model d @ '')''),
                       ConsoleLog separator,
                       ExecuteCommandSync d command,
                       ConsoleLog (paint E Cyan (result d))])
                    (filter isOnline devices))\<rparr>)
         \<and> main (E\<lparr>getDevices := Inr devices\<rparr>) command False w =
             w\<lparr>trace := trace w @
                 GetDevices
                 # ConsoleLog (''devices detected:'' @ [CHR 0x0A]
                    @ paint E Green
                        (concat (map (\<lambda>d. ''- '' @ toStatusString E d @ [CHR 0x0A])
                                   (filter isOnline devices))))
                 # concat (map (\<lambda>d.
                      [ConsoleLog [], ConsoleLog separator,
                       ConsoleLog (''Result for '' @ id_dev d @ '' ('' @ model d @ '')''),
                       ConsoleLog separator,
                       ExecuteCommandSync d command,
                       ConsoleLog (paint E Cyan (result d))])
                    (filter isOnline devices))\<rparr>
         \<and> executions (trace (snd (executeForOnlineDevices E devices command w))) =
             executions (trace w) @ filter isOnline devices"
proof -
  let ?on = "filter isOnline devices"
  let ?h = "ConsoleLog (''devices detected:'' @ [CHR 0x0A]
                    @ paint E Green
                        (concat (map (\<lambda>d. ''- '' @ toStatusString E d @ [CHR 0x0A]) ?on)))"
  from assms(1,2) have ne: "onlineDevices devices \<noteq> []"
    by (auto simp add: online_filter filter_empty_conv)
  from assms(3) have ok: "\<forall>d\<in>set (onlineDevices devices).
                            executeCommandSync E d command = Inr (result d)"
    by (simp add: online_filter)
  have lines: "formatDeviceList E ds =
      concat (map (\<lambda>d. ''- '' @ toStatusString E d @ [CHR 0x0A]) ds)" for ds
    by (simp add: formatDeviceList_statusLines statusLine_def [abs_def])
  have blocks: "(\<lambda>d.
                      [ConsoleLog [], ConsoleLog separator,
                       ConsoleLog (''Result for '' @ id_dev d @ '' ('' @ model d @ '')''),
                       ConsoleLog separator,
                       ExecuteCommandSync d command,
                       ConsoleLog (paint E Cyan (result d))])
        = (\<lambda>d. resultBlock E command d (result d))"
    by (simp add: resultBlock_def resultLabel_def)
  have run: "executeForOnlineDevices E devices command v =
        (Returned, v\<lparr>trace := trace v @ ?h #
           concat (map (\<lambda>d. resultBlock E command d (result d)) ?on)\<rparr>)" for v
    unfolding online_run [OF ne] all_ok [OF ok] lines by (simp add: online_filter)
  have whole: "main (E\<lparr>getDevices := Inr devices\<rparr>) command False w =
        w\<lparr>trace := trace w @ GetDevices # ?h #
           concat (map (\<lambda>d. resultBlock E command d (result d)) ?on)\<rparr>"
    unfolding main_query_ok run by simp
  have "executions (trace w @ ?h #
           concat (map (\<lambda>d. resultBlock E command d (result d)) ?on))
        = executions (trace w) @ ?on"
    by (simp add: executions_append executions_blocks)
  with run [of w] whole show ?thesis unfolding blocks by simp
qed

theorem one_shot_executes_every_online_device_witness:
  "deviceA \<in> set [deviceA] \<and> isOnline deviceA
   \<and> executeCommandSync sampleEnv deviceA ''shell ls'' = Inr ''Success''
   \<and> executeForOnlineDevices sampleEnv [deviceA] ''shell ls'' initial =
       (Returned,
        \<lparr>trace = [ConsoleLog (''devices detected:'' @ [CHR 0x0A] @ ''- A Pixel'' @ [CHR 0x0A]),
                  ConsoleLog [], ConsoleLog separator,
                  ConsoleLog ''Result for A (Pixel)'',
                  ConsoleLog separator,
                  ExecuteCommandSync deviceA ''shell ls'',
                  ConsoleLog ''Success''],
         watching = False, listeners = [], exited = None\<rparr>)
   \<and> deviceD \<in> set [deviceB, deviceA, deviceD] \<and> isOnline deviceD \<and> \<not> isOnline deviceB
   \<and> executeCommandSync sampleEnv deviceD ''shell ls'' = Inr ''Success''
   \<and> executeForOnlineDevices sampleEnv [deviceB, deviceA, deviceD] ''shell ls'' initial =
       (Returned,
        \<lparr>trace = [ConsoleLog (''devices detected:'' @ [CHR 0x0A] @ ''- A Pixel'' @ [CHR 0x0A]
                               @ ''- D Moto'' @ [CHR 0x0A]),
                  ConsoleLog [], ConsoleLog separator,
                  ConsoleLog ''Result for A (Pixel)'',
                  ConsoleLog separator,
                  ExecuteCommandSync deviceA ''shell ls'',
                  ConsoleLog ''Success'',
                  ConsoleLog [], ConsoleLog separator,
                  ConsoleLog ''Result for D (Moto)'',
                  ConsoleLog separator,
                  ExecuteCommandSync deviceD ''shell ls'',
                  ConsoleLog ''Success''],
         watching = False, listeners = [], exited = None\<rparr>)
   \<and> executions (trace (snd (executeForOnlineDevices sampleEnv [deviceB, deviceA, deviceD]
                                 ''shell ls'' initial))) = [deviceA, deviceD]"
proof -
  have a1: "deviceA \<in> set [deviceA]" by simp
  have a2: "isOnline deviceA" by simp
  have a3: "\<forall>d\<in>set [deviceA]. isOnline d \<longrightarrow>
              executeCommandSync sampleEnv d ''shell ls'' = Inr ((\<lambda>d. ''Success'') d)"
    by simp
  have b1: "deviceD \<in> set [deviceB, deviceA, deviceD]" by simp
  have b2: "isOnline deviceD" by simp
  have b3: "\<forall>d\<in>set [deviceB, deviceA, deviceD]. isOnline d \<longrightarrow>
              executeCommandSync sampleEnv d ''shell ls'' = Inr ((\<lambda>d. ''Success'') d)"
    by simp
  show ?thesis
    using one_shot_executes_every_online_device [OF a1 a2 a3, of initial]
          one_shot_executes_every_online_device [OF b1 b2 b3, of initial]
    by (simp add: initial_def)
qed

text \<open>
  Claim C5. On the empty device list \<^verbatim>\<open>executeForOnlineDevices\<close> returns normally after
  one line on standard error, the no-devices message, and runs no command; the one-shot
  run on an empty snapshot does the query, prints that message and does not exit.
\<close>

theorem no_devices_reported:
  "executeForOnlineDevices E [] command w =
     (Returned,
      w\<lparr>trace := trace w @ [ConsoleError (paint E Red (''no devices detected'' @ [CHR 0x0A]))]\<rparr>)
   \<and> main (E\<lparr>getDevices := Inr []\<rparr>) command False w =
       w\<lparr>trace := trace w @
            [GetDevices, ConsoleError (paint E Red (''no devices detected'' @ [CHR 0x0A]))]\<rparr>"
  by (simp add: executeForOnlineDevices_def main_def onlineDevices_def offlineDevices_def
        consoleError_def emit_effect_def)

theorem no_devices_reported_witness:
  "main (sampleEnv\<lparr>getDevices := Inr []\<rparr>) ''shell ls'' False initial =
     \<lparr>trace = [GetDevices, ConsoleError (''no devices detected'' @ [CHR 0x0A])],
      watching = False, listeners = [], exited = None\<rparr>"
  using no_devices_reported [of sampleEnv "''shell ls''" initial]
  by (simp add: initial_def)

text \<open>
  Claim C6. When the list is not empty and none of its devices is online,
  \<^verbatim>\<open>executeForOnlineDevices\<close> returns normally after one line on standard output: the
  offline report, with the status line of every device of the list, in order. No command
  is run. The one-shot run on such a snapshot does the query and prints that report.
\<close>

theorem offline_only_reported:
  assumes "onlineDevices devices = []" and "devices \<noteq> []"
  shows "executeForOnlineDevices E devices command w =
           (Returned,
            w\<lparr>trace := trace w @
                 [ConsoleLog (''offline devices detected:'' @ [CHR 0x0A]
                    @ paint E Red (concat (map (statusLine E) devices)))]\<rparr>)
         \<and> main (E\<lparr>getDevices := Inr devices\<rparr>) command False w =
             w\<lparr>trace := trace w @
                 [GetDevices,
                  ConsoleLog (''offline devices detected:'' @ [CHR 0x0A]
                    @ paint E Red (concat (map (statusLine E) devices)))]\<rparr>"
proof -
  have fmt: "formatDeviceList (E\<lparr>getDevices := g\<rparr>) ds = concat (map (statusLine E) ds)" for g ds
    by (simp add: formatDeviceList_def formatDeviceList_statusLines [symmetric])
  have run: "executeForOnlineDevices E' devices command v =
           (Returned,
            v\<lparr>trace := trace v @
                 [ConsoleLog (''offline devices detected:'' @ [CHR 0x0A]
                    @ paint E' Red (formatDeviceList E' devices))]\<rparr>)" for E' v
    using assms
    by (simp add: executeForOnlineDevices_def offline_all consoleLog_def emit_effect_def)
  have one: "executeForOnlineDevices E devices command w =
           (Returned,
            w\<lparr>trace := trace w @
                 [ConsoleLog (''offline devices detected:'' @ [CHR 0x0A]
                    @ paint E Red (concat (map (statusLine E) devices)))]\<rparr>)"
    by (simp add: run formatDeviceList_statusLines)
  have whole: "main (E\<lparr>getDevices := Inr devices\<rparr>) command False w =
             w\<lparr>trace := trace w @
                 [GetDevices,
                  ConsoleLog (''offline devices detected:'' @ [CHR 0x0A]
                    @ paint E Red (concat (map (statusLine E) devices)))]\<rparr>"
    by (simp add: main_def run fmt emit_effect_def)
  from one whole show ?thesis by (rule conjI)
qed

theorem offline_only_reported_witness:
  "onlineDevices [deviceB] = [] \<and> [deviceB] \<noteq> []
   \<and> executeForOnlineDevices sampleEnv [deviceB] ''shell ls'' initial =
     (Returned,
      \<lparr>trace = [ConsoleLog (''offline devices detected:'' @ [CHR 0x0A] @ ''- B Nexus'' @ [CHR 0x0A])],
       watching = False, listeners = [], exited = None\<rparr>)"
proof -
  have h: "onlineDevices [deviceB] = []"
    by (simp add: onlineDevices_def)
  show ?thesis
    using h offline_only_reported [OF h, of sampleEnv "''shell ls''" initial]
    by (simp add: initial_def statusLine_def)
qed




text \<open>
  Claim C8. The online and the offline sublist of \<^verbatim>\<open>executeForOnlineDevices\<close> partition
  the device list: together they hold every device of the list, no device is in both,
  every occurrence lands in exactly one of them (the multisets add up), and each sublist
  keeps the order of the input.
\<close>

theorem online_offline_partition:
  "set (onlineDevices devices) \<union> set (offlineDevices devices) = set devices
   \<and> set (onlineDevices devices) \<inter> set (offlineDevices devices) = {}
   \<and> mset (onlineDevices devices) + mset (offlineDevices devices) = mset devices
   \<and> subseq (onlineDevices devices) devices
   \<and> subseq (offlineDevices devices) devices"
  by (auto simp add: onlineDevices_def offlineDevices_def)

text \<open>
  Claim C9. When the list has an online device, \<^verbatim>\<open>executeForOnlineDevices\<close> does on it
  exactly what it does on the sublist of its online devices alone: the offline devices of
  the list add nothing to the output. The first line lists the online devices only, and
  every device the command is then run on is an online device of the list, none an
  offline one. The offline report belongs to the branch taken when no device is online.
\<close>

theorem offline_devices_ignored_beside_online:
  assumes "onlineDevices devices \<noteq> []"
  shows "executeForOnlineDevices E devices command w =
           executeForOnlineDevices E (onlineDevices devices) command w
         \<and> (\<exists>t. trace (snd (executeForOnlineDevices E devices command w)) =
                   trace w @
                   ConsoleLog (''devices detected:'' @ [CHR 0x0A]
                      @ paint E Green (concat (map (statusLine E) (onlineDevices devices))))
                   # t
                \<and> prefix (executions t) (onlineDevices devices)
                \<and> set (executions t) \<inter> set (offlineDevices devices) = {})"
proof -
  let ?h = "ConsoleLog (''devices detected:'' @ [CHR 0x0A]
              @ paint E Green (formatDeviceList E (onlineDevices devices)))"
  from assms have ne: "onlineDevices (onlineDevices devices) \<noteq> []"
    by (simp add: onlineDevices_idem)
  have same: "executeForOnlineDevices E devices command w =
           executeForOnlineDevices E (onlineDevices devices) command w"
    unfolding online_run [OF assms] online_run [OF ne] onlineDevices_idem by (rule refl)
  obtain r w' where rw: "executeCommandOnDevices E (onlineDevices devices) command
                           (w\<lparr>trace := trace w @ [?h]\<rparr>) = (r, w')"
    by (cases "executeCommandOnDevices E (onlineDevices devices) command
                 (w\<lparr>trace := trace w @ [?h]\<rparr>)")
  from run_extends [OF rw] obtain t where
    w': "w' = (w\<lparr>trace := trace w @ [?h]\<rparr>)\<lparr>trace := trace (w\<lparr>trace := trace w @ [?h]\<rparr>) @ t\<rparr>"
    and p: "prefix (executions t) (onlineDevices devices)"
    by blast
  have tr: "trace (snd (executeForOnlineDevices E devices command w)) = trace w @ ?h # t"
    unfolding online_run [OF assms] rw w' by simp
  from p have "set (executions t) \<subseteq> set (onlineDevices devices)"
    by (rule set_mono_prefix)
  then have "set (executions t) \<inter> set (offlineDevices devices) = {}"
    by (auto simp add: onlineDevices_def offlineDevices_def)
  with tr p same show ?thesis
    by (auto simp add: formatDeviceList_statusLines)
qed

theorem offline_devices_ignored_beside_online_witness:
  "onlineDevices [deviceB, deviceA] \<noteq> []
   \<and> offlineDevices [deviceB, deviceA] \<noteq> []
   \<and> executeForOnlineDevices sampleEnv [deviceB, deviceA] ''shell ls'' initial =
       executeForOnlineDevices sampleEnv (onlineDevices [deviceB, deviceA]) ''shell ls'' initial
   \<and> executeForOnlineDevices sampleEnv [deviceB, deviceA] ''shell ls'' initial =
       (Returned,
        \<lparr>trace = [ConsoleLog (''devices detected:'' @ [CHR 0x0A] @ ''- A Pixel'' @ [CHR 0x0A]),
                  ConsoleLog [], ConsoleLog separator, ConsoleLog ''Result for A (Pixel)'',
                  ConsoleLog separator, ExecuteCommandSync deviceA ''shell ls'',
                  ConsoleLog ''Success''],
         watching = False, listeners = [], exited = None\<rparr>)"
proof -
  have h: "onlineDevices [deviceB, deviceA] \<noteq> []"
    by (simp add: onlineDevices_def)
  have off: "offlineDevices [deviceB, deviceA] \<noteq> []"
    by (simp add: offlineDevices_def)
  have run: "executeForOnlineDevices sampleEnv [deviceB, deviceA] ''shell ls'' initial =
       (Returned,
        \<lparr>trace = [ConsoleLog (''devices detected:'' @ [CHR 0x0A] @ ''- A Pixel'' @ [CHR 0x0A]),
                  ConsoleLog [], ConsoleLog separator, ConsoleLog ''Result for A (Pixel)'',
                  ConsoleLog separator, ExecuteCommandSync deviceA ''shell ls'',
                  ConsoleLog ''Success''],
         watching = False, listeners = [], exited = None\<rparr>)"
    by (simp add: executeForOnlineDevices_def onlineDevices_def formatDeviceList_def
          consoleLog_def emit_effect_def initial_def)
  from offline_devices_ignored_beside_online [OF h, of sampleEnv "''shell ls''" initial]
  have "executeForOnlineDevices sampleEnv [deviceB, deviceA] ''shell ls'' initial =
       executeForOnlineDevices sampleEnv (onlineDevices [deviceB, deviceA]) ''shell ls'' initial"
    by (rule conjunct1)
  with h off run show ?thesis by blast
qed

text \<open>
  Claim C10. For every device list, \<^verbatim>\<open>formatDeviceList\<close> returns the concatenation, in
  input order, of one line per device: \<^verbatim>\<open>"- "\<close>, the device's status string and a
  newline. The empty list gives the empty string. Run on an array in the heap, it returns
  that same string for the list stored there and leaves the heap, and so the array it was
  given, as it was.
\<close>

theorem formatDeviceList_one_line_per_device:
  "formatDeviceList E deviceList =
     concat (map (\<lambda>device. ''- '' @ toStatusString E device @ [CHR 0x0A]) deviceList)
   \<and> formatDeviceList E [] = []
   \<and> formatDeviceList_heap E array h =
       (concat (map (\<lambda>device. ''- '' @ toStatusString E device @ [CHR 0x0A]) (h array)), h)"
proof -
  have "foldl (\<lambda>previousValue device.
                 previousValue @ ''- '' @ toStatusString E device @ [CHR 0x0A]) acc ds
        = acc @ concat (map (\<lambda>device. ''- '' @ toStatusString E device @ [CHR 0x0A]) ds)"
    for acc ds
    by (induction ds arbitrary: acc) simp_all
  then have pure: "formatDeviceList E ds =
      concat (map (\<lambda>device. ''- '' @ toStatusString E device @ [CHR 0x0A]) ds)" for ds
    by (simp add: formatDeviceList_def)
  from reduce_lines [where k = 0 and n = "length (h array)" and h = h and r = array
                       and E = E and acc = "[]"]
  have in_heap: "formatDeviceList_heap E array h =
       (concat (map (\<lambda>device. ''- '' @ toStatusString E device @ [CHR 0x0A]) (h array)), h)"
    by (simp add: formatDeviceList_heap_def)
  have empty: "formatDeviceList E [] = []"
    by (simp add: formatDeviceList_def)
  from pure [of deviceList] empty in_heap show ?thesis by blast
qed

end
